theory Spec2Isabelle
  imports Main "HOL-Library.Word"
begin

section \<open>The login route: loader and action of app/routes/login.tsx\<close>

text \<open>
  The route has two server-side handlers. \<open>loader\<close> guards the page: a request that
  already carries a user id is sent to \<open>/\<close>. \<open>action\<close> handles the submitted form:
  it validates the email, then the password, asks \<open>verifyLogin\<close> for the user and
  hands over to \<open>createUserSession\<close>.

  Four functions are imported from other modules of the application
  (\<open>getUserId\<close> and \<open>createUserSession\<close> from \<open>~/session.server\<close>, \<open>verifyLogin\<close> from
  \<open>~/models/user.server\<close>, \<open>validateEmail\<close> from \<open>~/utils\<close>). Their code is not part
  of this file, so the handlers take them as parameters, and every theorem holds for
  all of them. Each call of a collaborator is recorded, in order, in a list of calls
  that the handler returns next to its response.
\<close>

subsection \<open>JavaScript strings\<close>

text \<open>
  A JavaScript string is a sequence of UTF-16 code units and its \<open>length\<close> is their
  number, so a string is a list of 16-bit words and \<open>.length\<close> is \<open>length\<close>.
  \<open>js\<close> gives the code units of an ASCII literal of the source.
\<close>

type_synonym jsstring = "16 word list"

definition js :: "string \<Rightarrow> jsstring" where
  "js s = map (\<lambda>c. word_of_nat (of_char c)) s"

subsection \<open>Form data, requests and responses\<close>

text \<open>
  \<open>FormData.get(name)\<close> returns the value of the first entry of that name, or \<open>null\<close>
  when there is none; a value is a string or a \<open>File\<close>. The entries are an association
  list (a name may occur more than once) and \<open>null\<close> is \<open>None\<close>.
\<close>

datatype form_value = Str jsstring | File jsstring "8 word list"

type_synonym form_data = "(jsstring \<times> form_value) list"

definition get :: "form_data \<Rightarrow> jsstring \<Rightarrow> form_value option" where
  "get fd name = map_of fd name"

text \<open>
  \<open>request.formData()\<close> rejects with a \<open>TypeError\<close> when the body of the request is
  not form data; \<open>form_body\<close> is \<open>None\<close> for such a request.
\<close>

record request =
  url :: jsstring
  cookie :: "jsstring option"
  form_body :: "form_data option"

datatype error = TypeError

definition formData :: "request \<Rightarrow> error + form_data" where
  "formData request = (case form_body request of None \<Rightarrow> Inl TypeError | Some fd \<Rightarrow> Inr fd)"

text \<open>
  The object literals of the source are JSON values; a response is its status, its
  headers and its body. \<open>json\<close> and \<open>redirect\<close> are the two response helpers of the
  framework: \<open>json(data, {status})\<close> answers with the serialised data, \<open>redirect(url)\<close>
  with status 302 and a \<open>Location\<close> header.
\<close>

datatype json_value = JString jsstring | JObject "(string \<times> json_value) list"

record response =
  status :: nat
  headers :: "(string \<times> jsstring) list"
  body :: "json_value option"

definition json :: "json_value \<Rightarrow> nat \<Rightarrow> response" where
  "json data st =
     \<lparr>status = st,
      headers = [(''Content-Type'', js ''application/json; charset=utf-8'')],
      body = Some data\<rparr>"

definition redirect :: "jsstring \<Rightarrow> response" where
  "redirect target = \<lparr>status = 302, headers = [(''Location'', target)], body = None\<rparr>"

subsection \<open>The collaborators\<close>

text \<open>
  A user is an object with an \<open>id\<close>; user ids are strings. \<open>verifyLogin\<close> answers with
  a user or with \<open>null\<close>, \<open>getUserId\<close> with a user id or with nothing (\<open>None\<close>).
  At run time \<open>validateEmail\<close> and \<open>verifyLogin\<close> receive whatever \<open>formData.get\<close>
  returned for the email, so their argument is a \<open>form_value option\<close>.
\<close>

record user =
  user_id :: jsstring

record session_args =
  request_of :: request
  userId :: jsstring
  remember :: bool
  redirectTo :: jsstring

record env =
  getUserId :: "request \<Rightarrow> jsstring option"
  validateEmail :: "form_value option \<Rightarrow> bool"
  verifyLogin :: "form_value option \<Rightarrow> jsstring \<Rightarrow> user option"
  createUserSession :: "session_args \<Rightarrow> response"

datatype call =
    GetUserId request
  | ValidateEmail "form_value option"
  | VerifyLogin "form_value option" jsstring
  | CreateUserSession session_args

subsection \<open>The loader\<close>

text \<open>
  \<open>if (userId)\<close> is JavaScript's truthiness test: \<open>null\<close>, \<open>undefined\<close> and the empty
  string are falsy, every other string is truthy.
\<close>

definition truthy :: "jsstring option \<Rightarrow> bool" where
  "truthy v = (case v of None \<Rightarrow> False | Some s \<Rightarrow> s \<noteq> [])"

definition loader :: "env \<Rightarrow> request \<Rightarrow> response \<times> call list" where
  "loader env request =
     (let userId = getUserId env request in
      if truthy userId then (redirect (js ''/''), [GetUserId request])
      else (json (JObject []) 200, [GetUserId request]))"

subsection \<open>The action\<close>

text \<open>
  The branches follow the source from top to bottom. \<open>typeof password !== "string"\<close>
  holds for \<open>null\<close> and for a file; \<open>!user\<close> holds for \<open>null\<close> only, since a user is an
  object and every object is truthy; \<open>remember === "on"\<close> is strict equality with the
  string \<open>on\<close>. A rejected \<open>request.formData()\<close> ends the action with the error.
\<close>

definition action :: "env \<Rightarrow> request \<Rightarrow> error + response \<times> call list" where
  "action env request =
     (case formData request of
        Inl e \<Rightarrow> Inl e
      | Inr fd \<Rightarrow>
         (let email = get fd (js ''email'');
              password = get fd (js ''password'');
              redirectTo = get fd (js ''redirectTo'');
              remember = get fd (js ''remember'')
          in
          if \<not> validateEmail env email then
            Inr (json (JObject [(''errors'', JObject [(''email'', JString (js ''Email is invalid''))])])
                   400,
                 [ValidateEmail email])
          else
            (case password of
               None \<Rightarrow>
                 Inr (json (JObject [(''errors'',
                              JObject [(''password'', JString (js ''Password is required''))])])
                        400,
                      [ValidateEmail email])
             | Some (File name content) \<Rightarrow>
                 Inr (json (JObject [(''errors'',
                              JObject [(''password'', JString (js ''Password is required''))])])
                        400,
                      [ValidateEmail email])
             | Some (Str pw) \<Rightarrow>
                 if length pw < 8 then
                   Inr (json (JObject [(''errors'',
                                JObject [(''password'', JString (js ''Password is too short''))])])
                          400,
                        [ValidateEmail email])
                 else
                   (case verifyLogin env email pw of
                      None \<Rightarrow>
                        Inr (json (JObject [(''errors'',
                                     JObject [(''email'', JString (js ''Invalid email or password''))])])
                               400,
                             [ValidateEmail email, VerifyLogin email pw])
                    | Some user \<Rightarrow>
                        (let args =
                           \<lparr>request_of = request,
                            userId = user_id user,
                            remember = (if remember = Some (Str (js ''on'')) then True else False),
                            redirectTo =
                              (case redirectTo of Some (Str target) \<Rightarrow> target | _ \<Rightarrow> js ''/notes'')\<rparr>
                         in Inr (createUserSession env args,
                                 [ValidateEmail email, VerifyLogin email pw,
                                  CreateUserSession args]))))))"

subsection \<open>The check at which a submission fails\<close>

text \<open>
  The four checks of the action, in the order in which it makes them, and the first one
  that a submission fails (\<open>None\<close> when it passes all four). This is the notion the
  statements about "failing at the same check" are written with; \<open>failed_check_None\<close>
  below ties it to the action.
\<close>

datatype check = EmailFormat | PasswordString | PasswordLength | Credentials

definition failed_check :: "env \<Rightarrow> form_data \<Rightarrow> check option" where
  "failed_check env fd =
     (if \<not> validateEmail env (get fd (js ''email'')) then Some EmailFormat
      else
        (case get fd (js ''password'') of
           None \<Rightarrow> Some PasswordString
         | Some (File name content) \<Rightarrow> Some PasswordString
         | Some (Str pw) \<Rightarrow>
             if length pw < 8 then Some PasswordLength
             else if verifyLogin env (get fd (js ''email'')) pw = None then Some Credentials
             else None))"

subsection \<open>Sample collaborators and requests\<close>

text \<open>
  Concrete inputs on which the handlers are evaluated below. The sample application
  knows one account; its \<open>validateEmail\<close> accepts a string of more than three code
  units that contains \<open>@\<close> (code unit 64); its \<open>getUserId\<close> reads the user id from the
  request's cookie; its \<open>createUserSession\<close> answers with a redirect that sets a cookie.
\<close>

definition sample_env :: env where
  "sample_env =
     \<lparr>getUserId = cookie,
      validateEmail =
        (\<lambda>v. case v of Some (Str s) \<Rightarrow> 3 < length s \<and> 64 \<in> set s | _ \<Rightarrow> False),
      verifyLogin =
        (\<lambda>email pw. if email = Some (Str (js ''rachel@remix.run'')) \<and> pw = js ''racheliscool''
                     then Some \<lparr>user_id = js ''cl9u1''\<rparr> else None),
      createUserSession =
        (\<lambda>args. \<lparr>status = 302,
                   headers = [(''Set-Cookie'',
                               js ''__session='' @ userId args @
                                 (if remember args then js ''; Max-Age=604800'' else [])),
                              (''Location'', redirectTo args)],
                   body = None\<rparr>)\<rparr>"

definition post :: "form_data \<Rightarrow> request" where
  "post fd = \<lparr>url = js ''/login'', cookie = None, form_body = Some fd\<rparr>"

definition visit :: "jsstring option \<Rightarrow> request" where
  "visit c = \<lparr>url = js ''/login'', cookie = c, form_body = None\<rparr>"

definition login_form :: "string \<Rightarrow> string \<Rightarrow> form_data" where
  "login_form email password = [(js ''email'', Str (js email)), (js ''password'', Str (js password))]"

definition full_form :: form_data where
  "full_form =
     [(js ''email'', Str (js ''rachel@remix.run'')),
      (js ''password'', Str (js ''racheliscool'')),
      (js ''redirectTo'', Str (js ''/notes/new'')),
      (js ''remember'', Str (js ''on''))]"

definition upload_form :: form_data where
  "upload_form =
     [(js ''email'', Str (js ''rachel@remix.run'')),
      (js ''password'', File (js ''secret.txt'') [114, 97, 99, 104, 101, 108])]"

definition remember_form :: "form_value \<Rightarrow> form_data" where
  "remember_form v =
     [(js ''email'', Str (js ''rachel@remix.run'')),
      (js ''password'', Str (js ''racheliscool'')),
      (js ''remember'', v)]"

subsection \<open>Characters and code units\<close>

text \<open>
  A character outside the Basic Multilingual Plane takes two code units, a high
  surrogate followed by a low surrogate. \<open>code_points\<close> counts the characters of a
  string as its iterator yields them (\<open>[...s].length\<close>): a surrogate pair is one,
  every other code unit is one. The action itself never counts characters; this number
  is what a statement about "characters" is compared with.
\<close>

fun code_points :: "jsstring \<Rightarrow> nat" where
  "code_points [] = 0"
| "code_points [u] = 1"
| "code_points (u # v # rest) =
     (if 0xD800 \<le> u \<and> u \<le> 0xDBFF \<and> 0xDC00 \<le> v \<and> v \<le> 0xDFFF
      then Suc (code_points rest)
      else Suc (code_points (v # rest)))"

text \<open>
  A password of four times U+1F600 (each the pair D83D DE00), and an application in
  which it is the password of the sample account.
\<close>

definition emoji_password :: jsstring where
  "emoji_password = [0xD83D, 0xDE00, 0xD83D, 0xDE00, 0xD83D, 0xDE00, 0xD83D, 0xDE00]"

definition emoji_form :: form_data where
  "emoji_form =
     [(js ''email'', Str (js ''rachel@remix.run'')), (js ''password'', Str emoji_password)]"

definition emoji_env :: env where
  "emoji_env =
     sample_env
       \<lparr>verifyLogin :=
          (\<lambda>email pw. if email = Some (Str (js ''rachel@remix.run'')) \<and> pw = emoji_password
                       then Some \<lparr>user_id = js ''cl9u1''\<rparr> else None)\<rparr>"

section \<open>Properties\<close>

subsection \<open>String literals\<close>

lemma length_js [simp]: "length (js s) = length s"
  by (simp add: js_def)

lemma js_eq_iff [simp]: "js a = js b \<longleftrightarrow> a = b"
proof -
  have "inj (\<lambda>c::char. (word_of_nat (of_char c) :: 16 word))"
  proof (rule injI)
    fix x y :: char
    assume same: "(word_of_nat (of_char x) :: 16 word) = word_of_nat (of_char y)"
    have small: "(of_char c :: nat) < 2 ^ 16" for c
      by (rule less_trans [OF nat_of_char_less_256]) simp
    from same have "(of_char x :: nat) = of_char y"
      using small [of x] small [of y]
      by (simp add: word_of_nat_eq_iff take_bit_nat_eq_self)
    then show "x = y" by simp
  qed
  then show ?thesis unfolding js_def by (simp add: inj_map_eq_map)
qed

lemma js_eq_Nil [simp]: "js s = [] \<longleftrightarrow> s = []"
  by (simp add: js_def)

lemma js_append: "js (a @ b) = js a @ js b"
  by (simp add: js_def)

subsection \<open>The sample inputs, evaluated\<close>

lemma sample_validateEmail:
  "validateEmail sample_env (Some (Str (js ''rachel@remix.run'')))"
  "\<not> validateEmail sample_env (Some (Str (js ''rachel'')))"
  "\<not> validateEmail sample_env None"
  by (simp_all add: sample_env_def js_def)

lemma sample_verifyLogin:
  "verifyLogin sample_env (Some (Str (js e))) (js p) =
     (if e = ''rachel@remix.run'' \<and> p = ''racheliscool''
      then Some \<lparr>user_id = js ''cl9u1''\<rparr> else None)"
  by (simp add: sample_env_def)

lemma sample_createUserSession:
  "createUserSession sample_env args =
     \<lparr>status = 302,
      headers = [(''Set-Cookie'',
                  js ''__session='' @ userId args @
                    (if remember args then js ''; Max-Age=604800'' else [])),
                 (''Location'', redirectTo args)],
      body = None\<rparr>"
  by (simp add: sample_env_def)

lemma sample_get:
  "get (login_form e p) (js ''email'') = Some (Str (js e))"
  "get (login_form e p) (js ''password'') = Some (Str (js p))"
  "get (login_form e p) (js ''redirectTo'') = None"
  "get (login_form e p) (js ''remember'') = None"
  "get full_form (js ''email'') = Some (Str (js ''rachel@remix.run''))"
  "get full_form (js ''password'') = Some (Str (js ''racheliscool''))"
  "get full_form (js ''redirectTo'') = Some (Str (js ''/notes/new''))"
  "get full_form (js ''remember'') = Some (Str (js ''on''))"
  "get upload_form (js ''email'') = Some (Str (js ''rachel@remix.run''))"
  "get upload_form (js ''password'') = Some (File (js ''secret.txt'') [114, 97, 99, 104, 101, 108])"
  "get [] name = None"
  by (simp_all add: get_def login_form_def full_form_def upload_form_def)

lemma sample_get_remember:
  "get (remember_form v) (js ''email'') = Some (Str (js ''rachel@remix.run''))"
  "get (remember_form v) (js ''password'') = Some (Str (js ''racheliscool''))"
  "get (remember_form v) (js ''redirectTo'') = None"
  "get (remember_form v) (js ''remember'') = Some v"
  by (simp_all add: get_def remember_form_def)

lemma sample_get_emoji:
  "get emoji_form (js ''email'') = Some (Str (js ''rachel@remix.run''))"
  "get emoji_form (js ''password'') = Some (Str emoji_password)"
  "get emoji_form (js ''redirectTo'') = None"
  "get emoji_form (js ''remember'') = None"
  by (simp_all add: get_def emoji_form_def)

lemma emoji_password_size:
  "length emoji_password = 8"
  "code_points emoji_password = 4"
  "emoji_password \<noteq> js ''racheliscool''"
  by (simp_all add: emoji_password_def js_def)

lemma code_points_le_length: "code_points s \<le> length s"
  by (induction s rule: code_points.induct) auto

lemma sample_emoji:
  "verifyLogin sample_env (Some (Str (js ''rachel@remix.run''))) emoji_password = None"
  "validateEmail emoji_env = validateEmail sample_env"
  "createUserSession emoji_env = createUserSession sample_env"
  "verifyLogin emoji_env (Some (Str (js ''rachel@remix.run''))) emoji_password =
     Some \<lparr>user_id = js ''cl9u1''\<rparr>"
  by (simp_all add: emoji_env_def sample_env_def emoji_password_size)

lemma form_body_post [simp]: "form_body (post fd) = Some fd"
  by (simp add: post_def)

subsection \<open>A request without form data\<close>

lemma action_rejects:
  "form_body request = None \<Longrightarrow> action env request = Inl TypeError"
  by (simp add: action_def formData_def)

subsection \<open>The classification agrees with the action\<close>

lemma failed_check_None:
  assumes "form_body request = Some fd"
  shows "failed_check env fd = None \<longleftrightarrow>
           (\<exists>r calls args. action env request = Inr (r, calls) \<and> CreateUserSession args \<in> set calls)"
  using assms
  by (auto simp: failed_check_def action_def formData_def Let_def
           split: option.splits form_value.splits)

lemma failed_check_response:
  assumes "form_body request = Some fd"
    and "failed_check env fd = Some c"
  obtains calls where
    "action env request =
       Inr (json (JObject [(''errors'',
                    JObject [(case c of EmailFormat \<Rightarrow> ''email'' | PasswordString \<Rightarrow> ''password''
                                | PasswordLength \<Rightarrow> ''password'' | Credentials \<Rightarrow> ''email'',
                              JString (js (case c of EmailFormat \<Rightarrow> ''Email is invalid''
                                | PasswordString \<Rightarrow> ''Password is required''
                                | PasswordLength \<Rightarrow> ''Password is too short''
                                | Credentials \<Rightarrow> ''Invalid email or password'')))])]) 400,
            calls)"
  using assms
  by (auto simp: failed_check_def action_def formData_def Let_def
           split: if_splits option.splits form_value.splits)

subsection \<open>The action on valid credentials\<close>

text \<open>
  C1. For every form submission whose email passes \<open>validateEmail\<close>, whose password is a
  string of length at least 8 and for which \<open>verifyLogin\<close> returns a user, the action
  returns exactly the response of \<open>createUserSession\<close>, called with the request, that
  user's id and a redirect target that is the submitted \<open>redirectTo\<close> field when that
  field is a string and \<open>/notes\<close> otherwise (a file, or no such field). The calls made
  are \<open>validateEmail\<close>, \<open>verifyLogin\<close> and \<open>createUserSession\<close>, in this order.
\<close>

theorem action_success:
  assumes "form_body request = Some fd"
    and "validateEmail env (get fd (js ''email''))"
    and "get fd (js ''password'') = Some (Str pw)"
    and "8 \<le> length pw"
    and "verifyLogin env (get fd (js ''email'')) pw = Some user"
  shows "let args = \<lparr>request_of = request,
                     userId = user_id user,
                     remember = (get fd (js ''remember'') = Some (Str (js ''on''))),
                     redirectTo = (case get fd (js ''redirectTo'') of
                                     Some (Str target) \<Rightarrow> target
                                   | _ \<Rightarrow> js ''/notes'')\<rparr>
         in action env request =
              Inr (createUserSession env args,
                   [ValidateEmail (get fd (js ''email'')),
                    VerifyLogin (get fd (js ''email'')) pw,
                    CreateUserSession args])"
  using assms by (simp add: action_def formData_def Let_def)

theorem action_success_witness:
  "map_sum id fst (action sample_env (post full_form)) =
     Inr \<lparr>status = 302,
          headers = [(''Set-Cookie'', js ''__session=cl9u1; Max-Age=604800''),
                     (''Location'', js ''/notes/new'')],
          body = None\<rparr>
   \<and> map_sum id fst (action sample_env (post (login_form ''rachel@remix.run'' ''racheliscool''))) =
     Inr \<lparr>status = 302,
          headers = [(''Set-Cookie'', js ''__session=cl9u1''), (''Location'', js ''/notes'')],
          body = None\<rparr>"
  using
    action_success [of "post full_form" full_form sample_env "js ''racheliscool''"
      "\<lparr>user_id = js ''cl9u1''\<rparr>"]
    action_success [of "post (login_form ''rachel@remix.run'' ''racheliscool'')"
      "login_form ''rachel@remix.run'' ''racheliscool''" sample_env "js ''racheliscool''"
      "\<lparr>user_id = js ''cl9u1''\<rparr>"]
  by (simp add: sample_get sample_validateEmail sample_verifyLogin sample_createUserSession
        Let_def flip: js_append)

text \<open>
  C7. On success the action calls \<open>createUserSession\<close> once and returns its response,
  and the \<open>remember\<close> flag of that call is true exactly when
  \<open>formData.get("remember")\<close> is the string \<open>on\<close>: it is false when the field is
  absent, when it is a file, and when it is any other string.
\<close>

theorem remember_flag:
  assumes "form_body request = Some fd"
    and "validateEmail env (get fd (js ''email''))"
    and "get fd (js ''password'') = Some (Str pw)"
    and "8 \<le> length pw"
    and "verifyLogin env (get fd (js ''email'')) pw = Some user"
  shows "let args = \<lparr>request_of = request,
                     userId = user_id user,
                     remember = (case get fd (js ''remember'') of
                                   None \<Rightarrow> False
                                 | Some (File name content) \<Rightarrow> False
                                 | Some (Str v) \<Rightarrow> v = js ''on''),
                     redirectTo = (case get fd (js ''redirectTo'') of
                                     Some (Str target) \<Rightarrow> target
                                   | _ \<Rightarrow> js ''/notes'')\<rparr>
         in action env request =
              Inr (createUserSession env args,
                   [ValidateEmail (get fd (js ''email'')),
                    VerifyLogin (get fd (js ''email'')) pw,
                    CreateUserSession args])"
  using assms
  by (simp add: action_def formData_def Let_def split: option.splits form_value.splits)

theorem remember_flag_witness:
  "map_sum id fst (action sample_env (post (remember_form (Str (js ''on''))))) =
     Inr \<lparr>status = 302,
          headers = [(''Set-Cookie'', js ''__session=cl9u1; Max-Age=604800''),
                     (''Location'', js ''/notes'')],
          body = None\<rparr>
   \<and> map_sum id fst (action sample_env (post (remember_form (Str (js ''off''))))) =
     Inr \<lparr>status = 302,
          headers = [(''Set-Cookie'', js ''__session=cl9u1''), (''Location'', js ''/notes'')],
          body = None\<rparr>
   \<and> map_sum id fst (action sample_env (post (remember_form (File (js ''on'') [])))) =
     Inr \<lparr>status = 302,
          headers = [(''Set-Cookie'', js ''__session=cl9u1''), (''Location'', js ''/notes'')],
          body = None\<rparr>
   \<and> map_sum id fst (action sample_env (post (login_form ''rachel@remix.run'' ''racheliscool''))) =
     Inr \<lparr>status = 302,
          headers = [(''Set-Cookie'', js ''__session=cl9u1''), (''Location'', js ''/notes'')],
          body = None\<rparr>"
  using
    remember_flag [of "post (remember_form (Str (js ''on'')))" "remember_form (Str (js ''on''))"
      sample_env "js ''racheliscool''" "\<lparr>user_id = js ''cl9u1''\<rparr>"]
    remember_flag [of "post (remember_form (Str (js ''off'')))" "remember_form (Str (js ''off''))"
      sample_env "js ''racheliscool''" "\<lparr>user_id = js ''cl9u1''\<rparr>"]
    remember_flag [of "post (remember_form (File (js ''on'') []))"
      "remember_form (File (js ''on'') [])"
      sample_env "js ''racheliscool''" "\<lparr>user_id = js ''cl9u1''\<rparr>"]
    remember_flag [of "post (login_form ''rachel@remix.run'' ''racheliscool'')"
      "login_form ''rachel@remix.run'' ''racheliscool''"
      sample_env "js ''racheliscool''" "\<lparr>user_id = js ''cl9u1''\<rparr>"]
  by (simp add: sample_get sample_get_remember sample_validateEmail sample_verifyLogin
        sample_createUserSession Let_def flip: js_append)

subsection \<open>The order of the checks\<close>

text \<open>
  C2. The action validates in a fixed order: the email first, then that the password is a
  string, then that the password has at least 8 code units. At the first check that
  fails it returns a 400 response whose message names the failed field, and the only
  call it has made is the one of \<open>validateEmail\<close>: \<open>verifyLogin\<close> is not called. The
  answer to an invalid email is the same whatever the password field holds, and the
  answer to a password that is not a string does not depend on any length.
\<close>

theorem validation_order:
  assumes "form_body request = Some fd"
  shows "(\<not> validateEmail env (get fd (js ''email'')) \<longrightarrow>
            action env request =
              Inr (json (JObject [(''errors'',
                           JObject [(''email'', JString (js ''Email is invalid''))])]) 400,
                   [ValidateEmail (get fd (js ''email''))]))
       \<and> (validateEmail env (get fd (js ''email'')) \<and>
            (\<forall>pw. get fd (js ''password'') \<noteq> Some (Str pw)) \<longrightarrow>
            action env request =
              Inr (json (JObject [(''errors'',
                           JObject [(''password'', JString (js ''Password is required''))])]) 400,
                   [ValidateEmail (get fd (js ''email''))]))
       \<and> (validateEmail env (get fd (js ''email'')) \<and>
            (\<exists>pw. get fd (js ''password'') = Some (Str pw) \<and> length pw < 8) \<longrightarrow>
            action env request =
              Inr (json (JObject [(''errors'',
                           JObject [(''password'', JString (js ''Password is too short''))])]) 400,
                   [ValidateEmail (get fd (js ''email''))]))"
  using assms
  by (auto simp: action_def formData_def Let_def split: option.splits form_value.splits)

theorem validation_order_witness:
  "action sample_env (post (login_form ''rachel'' ''short'')) =
     Inr (json (JObject [(''errors'', JObject [(''email'', JString (js ''Email is invalid''))])]) 400,
          [ValidateEmail (Some (Str (js ''rachel'')))])
   \<and> action sample_env (post upload_form) =
     Inr (json (JObject [(''errors'',
                  JObject [(''password'', JString (js ''Password is required''))])]) 400,
          [ValidateEmail (Some (Str (js ''rachel@remix.run'')))])
   \<and> action sample_env (post (login_form ''rachel@remix.run'' ''short'')) =
     Inr (json (JObject [(''errors'',
                  JObject [(''password'', JString (js ''Password is too short''))])]) 400,
          [ValidateEmail (Some (Str (js ''rachel@remix.run'')))])"
  using
    validation_order [of "post (login_form ''rachel'' ''short'')" "login_form ''rachel'' ''short''"
      sample_env]
    validation_order [of "post upload_form" upload_form sample_env]
    validation_order [of "post (login_form ''rachel@remix.run'' ''short'')"
      "login_form ''rachel@remix.run'' ''short''" sample_env]
  by (simp add: sample_get sample_validateEmail)

subsection \<open>The error responses\<close>

text \<open>
  C4. For every form submission whose email passes \<open>validateEmail\<close> and whose password is
  a string of length at least 8, but for which \<open>verifyLogin\<close> returns no user, the
  action returns a response of status 400 whose body is
  \<open>{ errors: { email: "Invalid email or password" } }\<close>.
\<close>

theorem unknown_account:
  assumes "form_body request = Some fd"
    and "validateEmail env (get fd (js ''email''))"
    and "get fd (js ''password'') = Some (Str pw)"
    and "8 \<le> length pw"
    and "verifyLogin env (get fd (js ''email'')) pw = None"
  shows "\<exists>r calls. action env request = Inr (r, calls) \<and> status r = 400 \<and>
           body r = Some (JObject [(''errors'',
                            JObject [(''email'', JString (js ''Invalid email or password''))])])"
  using assms by (simp add: action_def formData_def Let_def json_def)

theorem unknown_account_witness:
  "validateEmail sample_env (get (login_form ''rachel@remix.run'' ''rachelisnotcool'') (js ''email''))
   \<and> verifyLogin sample_env (Some (Str (js ''rachel@remix.run''))) (js ''rachelisnotcool'') = None
   \<and> (\<exists>r calls.
        action sample_env (post (login_form ''rachel@remix.run'' ''rachelisnotcool'')) =
          Inr (r, calls) \<and>
        status r = 400 \<and>
        body r = Some (JObject [(''errors'',
                         JObject [(''email'', JString (js ''Invalid email or password''))])]))"
  using unknown_account [of "post (login_form ''rachel@remix.run'' ''rachelisnotcool'')"
      "login_form ''rachel@remix.run'' ''rachelisnotcool''" sample_env "js ''rachelisnotcool''"]
  by (simp add: sample_get sample_validateEmail sample_verifyLogin)

text \<open>
  C5. For every form submission whose email field fails \<open>validateEmail\<close>, the action
  returns a response of status 400 with a JSON body of the shape \<open>{ errors: { email } }\<close>:
  the body is \<open>{ errors: { email: "Email is invalid" } }\<close> and the content type is JSON.
\<close>

theorem invalid_email:
  assumes "form_body request = Some fd"
    and "\<not> validateEmail env (get fd (js ''email''))"
  shows "\<exists>r calls. action env request = Inr (r, calls) \<and> status r = 400 \<and>
           map_of (headers r) ''Content-Type'' = Some (js ''application/json; charset=utf-8'') \<and>
           body r = Some (JObject [(''errors'',
                            JObject [(''email'', JString (js ''Email is invalid''))])])"
  using assms by (simp add: action_def formData_def Let_def json_def)

theorem invalid_email_witness:
  "\<not> validateEmail sample_env (get [] (js ''email''))
   \<and> (\<exists>r calls. action sample_env (post []) = Inr (r, calls) \<and> status r = 400 \<and>
        map_of (headers r) ''Content-Type'' = Some (js ''application/json; charset=utf-8'') \<and>
        body r = Some (JObject [(''errors'',
                         JObject [(''email'', JString (js ''Email is invalid''))])]))"
  using invalid_email [of "post []" "[]" sample_env]
  by (simp add: sample_get sample_validateEmail)

text \<open>
  C6, with the length the code tests. For every form submission whose email passes
  \<open>validateEmail\<close> but whose password is missing, is a file, or is a string of fewer than
  8 UTF-16 code units (\<open>password.length < 8\<close>), the action returns a response of status
  400 whose body carries an error message for the password field,
  \<open>Password is required\<close> or \<open>Password is too short\<close>.
\<close>

theorem short_password:
  assumes "form_body request = Some fd"
    and "validateEmail env (get fd (js ''email''))"
    and "\<forall>pw. get fd (js ''password'') = Some (Str pw) \<longrightarrow> length pw < 8"
  shows "\<exists>r calls msg. action env request = Inr (r, calls) \<and> status r = 400 \<and>
           body r = Some (JObject [(''errors'', JObject [(''password'', JString (js msg))])]) \<and>
           (msg = ''Password is required'' \<or> msg = ''Password is too short'')"
  using assms
  by (auto simp: action_def formData_def Let_def json_def split: option.splits form_value.splits)

theorem short_password_witness:
  "get (login_form ''rachel@remix.run'' ''1234567'') (js ''password'') = Some (Str (js ''1234567''))
   \<and> length (js ''1234567'') < 8
   \<and> (\<exists>r calls msg.
        action sample_env (post (login_form ''rachel@remix.run'' ''1234567'')) = Inr (r, calls) \<and>
        status r = 400 \<and>
        body r = Some (JObject [(''errors'', JObject [(''password'', JString (js msg))])]) \<and>
        (msg = ''Password is required'' \<or> msg = ''Password is too short''))
   \<and> (\<exists>r calls msg.
        action sample_env (post upload_form) = Inr (r, calls) \<and>
        status r = 400 \<and>
        body r = Some (JObject [(''errors'', JObject [(''password'', JString (js msg))])]) \<and>
        (msg = ''Password is required'' \<or> msg = ''Password is too short''))"
  using
    short_password [of "post (login_form ''rachel@remix.run'' ''1234567'')"
      "login_form ''rachel@remix.run'' ''1234567''" sample_env]
    short_password [of "post upload_form" upload_form sample_env]
  by (simp add: sample_get sample_validateEmail)

text \<open>
  Counted in characters the statement fails. Four times U+1F600 is a password of 4
  characters and 8 code units: it passes the length test, \<open>verifyLogin\<close> is asked, and
  the answer carries no message for the password field. Where it is the password of
  the account, the submission logs in.
\<close>

theorem short_password_characters_counterexample:
  "code_points emoji_password = 4
   \<and> length emoji_password = 8
   \<and> validateEmail sample_env (get emoji_form (js ''email''))
   \<and> get emoji_form (js ''password'') = Some (Str emoji_password)
   \<and> action sample_env (post emoji_form) =
       Inr (json (JObject [(''errors'',
                    JObject [(''email'', JString (js ''Invalid email or password''))])]) 400,
            [ValidateEmail (Some (Str (js ''rachel@remix.run''))),
             VerifyLogin (Some (Str (js ''rachel@remix.run''))) emoji_password])
   \<and> map_sum id fst (action emoji_env (post emoji_form)) =
       Inr \<lparr>status = 302,
            headers = [(''Set-Cookie'', js ''__session=cl9u1''), (''Location'', js ''/notes'')],
            body = None\<rparr>"
  by (simp add: action_def formData_def Let_def sample_get_emoji emoji_password_size
        sample_validateEmail sample_emoji sample_createUserSession flip: js_append)

text \<open>
  C8. Every error response of the action (every response it returns without having
  called \<open>createUserSession\<close>) has status 400 and an \<open>errors\<close> object with exactly one
  field, which is \<open>email\<close> or \<open>password\<close>: never both and never neither.
\<close>

theorem single_error_field:
  assumes "action env request = Inr (r, calls)"
    and "\<forall>args. CreateUserSession args \<notin> set calls"
  shows "status r = 400 \<and>
         (\<exists>field msg. (field = ''email'' \<or> field = ''password'') \<and>
            body r = Some (JObject [(''errors'', JObject [(field, JString msg)])]))"
  using assms
  by (auto simp: action_def formData_def Let_def json_def
           split: if_splits option.splits form_value.splits sum.splits)

theorem single_error_field_witness:
  "action sample_env (post (login_form ''rachel@remix.run'' ''rachelisnotcool'')) =
     Inr (json (JObject [(''errors'',
                  JObject [(''email'', JString (js ''Invalid email or password''))])]) 400,
          [ValidateEmail (Some (Str (js ''rachel@remix.run''))),
           VerifyLogin (Some (Str (js ''rachel@remix.run''))) (js ''rachelisnotcool'')])
   \<and> status (json (JObject [(''errors'',
                  JObject [(''email'', JString (js ''Invalid email or password''))])]) 400) = 400
   \<and> (\<exists>field msg. (field = ''email'' \<or> field = ''password'') \<and>
         body (json (JObject [(''errors'',
                  JObject [(''email'', JString (js ''Invalid email or password''))])]) 400) =
           Some (JObject [(''errors'', JObject [(field, JString msg)])]))"
proof -
  let ?r = "json (JObject [(''errors'',
                  JObject [(''email'', JString (js ''Invalid email or password''))])]) 400"
  let ?calls = "[ValidateEmail (Some (Str (js ''rachel@remix.run''))),
                 VerifyLogin (Some (Str (js ''rachel@remix.run''))) (js ''rachelisnotcool'')]"
  have run: "action sample_env (post (login_form ''rachel@remix.run'' ''rachelisnotcool'')) =
               Inr (?r, ?calls)"
    by (simp add: action_def formData_def Let_def sample_get sample_validateEmail
          sample_verifyLogin)
  have quiet: "\<forall>args. CreateUserSession args \<notin> set ?calls"
    by simp
  from single_error_field [OF run quiet] run show ?thesis
    by simp
qed

text \<open>
  C9. On every failure path of the action (the email is invalid, the password is missing,
  is not a string or is too short, or \<open>verifyLogin\<close> returns no user),
  \<open>createUserSession\<close> is not called: the action returns a response of status 400, no
  call of \<open>createUserSession\<close> is among the calls it made, and the response sets no
  cookie.
\<close>

theorem no_session_on_failure:
  assumes "form_body request = Some fd"
    and "\<not> validateEmail env (get fd (js ''email'')) \<or>
         (\<forall>pw. get fd (js ''password'') = Some (Str pw) \<longrightarrow>
            length pw < 8 \<or> verifyLogin env (get fd (js ''email'')) pw = None)"
  shows "\<exists>r calls. action env request = Inr (r, calls) \<and> status r = 400 \<and>
           (\<forall>args. CreateUserSession args \<notin> set calls) \<and>
           map_of (headers r) ''Set-Cookie'' = None"
  using assms
  by (auto simp: action_def formData_def Let_def json_def split: option.splits form_value.splits)

theorem no_session_on_failure_witness:
  "(\<exists>r calls. action sample_env (post (login_form ''rachel'' ''racheliscool'')) = Inr (r, calls) \<and>
        status r = 400 \<and> (\<forall>args. CreateUserSession args \<notin> set calls) \<and>
        map_of (headers r) ''Set-Cookie'' = None)
   \<and> (\<exists>r calls. action sample_env (post upload_form) = Inr (r, calls) \<and>
        status r = 400 \<and> (\<forall>args. CreateUserSession args \<notin> set calls) \<and>
        map_of (headers r) ''Set-Cookie'' = None)
   \<and> (\<exists>r calls. action sample_env (post (login_form ''rachel@remix.run'' ''short'')) =
          Inr (r, calls) \<and>
        status r = 400 \<and> (\<forall>args. CreateUserSession args \<notin> set calls) \<and>
        map_of (headers r) ''Set-Cookie'' = None)
   \<and> (\<exists>r calls. action sample_env (post (login_form ''rachel@remix.run'' ''rachelisnotcool'')) =
          Inr (r, calls) \<and>
        status r = 400 \<and> (\<forall>args. CreateUserSession args \<notin> set calls) \<and>
        map_of (headers r) ''Set-Cookie'' = None)"
  using
    no_session_on_failure [of "post (login_form ''rachel'' ''racheliscool'')"
      "login_form ''rachel'' ''racheliscool''" sample_env]
    no_session_on_failure [of "post upload_form" upload_form sample_env]
    no_session_on_failure [of "post (login_form ''rachel@remix.run'' ''short'')"
      "login_form ''rachel@remix.run'' ''short''" sample_env]
    no_session_on_failure [of "post (login_form ''rachel@remix.run'' ''rachelisnotcool'')"
      "login_form ''rachel@remix.run'' ''rachelisnotcool''" sample_env]
  by (simp add: sample_get sample_validateEmail sample_verifyLogin)

text \<open>
  C10. The message of an error response is one of the four constants
  \<open>Email is invalid\<close>, \<open>Password is required\<close>, \<open>Password is too short\<close> and
  \<open>Invalid email or password\<close>, and it depends on the submission only through the check
  that failed: two submissions that fail at the same check, whatever their emails and
  passwords and whatever the collaborators, get the same response.
\<close>

theorem error_independent_of_credentials:
  assumes "form_body request1 = Some fd1"
    and "form_body request2 = Some fd2"
    and "failed_check env1 fd1 = Some c"
    and "failed_check env2 fd2 = Some c"
  shows "\<exists>r calls1 calls2 field msg.
           action env1 request1 = Inr (r, calls1) \<and>
           action env2 request2 = Inr (r, calls2) \<and>
           status r = 400 \<and>
           body r = Some (JObject [(''errors'', JObject [(field, JString (js msg))])]) \<and>
           msg \<in> {''Email is invalid'', ''Password is required'', ''Password is too short'',
                  ''Invalid email or password''}"
proof -
  let ?field = "case c of EmailFormat \<Rightarrow> ''email'' | PasswordString \<Rightarrow> ''password''
                  | PasswordLength \<Rightarrow> ''password'' | Credentials \<Rightarrow> ''email''"
  let ?msg = "case c of EmailFormat \<Rightarrow> ''Email is invalid''
                | PasswordString \<Rightarrow> ''Password is required''
                | PasswordLength \<Rightarrow> ''Password is too short''
                | Credentials \<Rightarrow> ''Invalid email or password''"
  let ?r = "json (JObject [(''errors'', JObject [(?field, JString (js ?msg))])]) 400"
  from assms(1,3) obtain calls1 where one: "action env1 request1 = Inr (?r, calls1)"
    by (rule failed_check_response)
  from assms(2,4) obtain calls2 where two: "action env2 request2 = Inr (?r, calls2)"
    by (rule failed_check_response)
  have "status ?r = 400"
    by (simp add: json_def)
  moreover have "body ?r = Some (JObject [(''errors'', JObject [(?field, JString (js ?msg))])])"
    by (simp add: json_def)
  moreover have "?msg \<in> {''Email is invalid'', ''Password is required'', ''Password is too short'',
                  ''Invalid email or password''}"
    by (cases c) simp_all
  ultimately show ?thesis
    using one two by blast
qed

theorem error_independent_of_credentials_witness:
  "failed_check sample_env (login_form ''rachel@remix.run'' ''rachelisnotcool'') = Some Credentials
   \<and> failed_check sample_env (login_form ''rachel@remix.run'' ''12345678'') = Some Credentials
   \<and> (\<exists>r calls1 calls2 field msg.
        action sample_env (post (login_form ''rachel@remix.run'' ''rachelisnotcool'')) =
          Inr (r, calls1) \<and>
        action sample_env (post (login_form ''rachel@remix.run'' ''12345678'')) = Inr (r, calls2) \<and>
        status r = 400 \<and>
        body r = Some (JObject [(''errors'', JObject [(field, JString (js msg))])]) \<and>
        msg \<in> {''Email is invalid'', ''Password is required'', ''Password is too short'',
               ''Invalid email or password''})"
proof -
  have a: "failed_check sample_env (login_form ''rachel@remix.run'' ''rachelisnotcool'') =
             Some Credentials"
    by (simp add: failed_check_def sample_get sample_validateEmail sample_verifyLogin)
  have b: "failed_check sample_env (login_form ''rachel@remix.run'' ''12345678'') =
             Some Credentials"
    by (simp add: failed_check_def sample_get sample_validateEmail sample_verifyLogin)
  from error_independent_of_credentials [OF form_body_post form_body_post a b] a b
  show ?thesis by simp
qed

subsection \<open>The loader\<close>

text \<open>
  C3. For every request for which \<open>getUserId\<close> returns a user id (the id of the
  session's user, a non-empty string), the loader returns the redirect to \<open>/\<close>
  (status 302, \<open>Location: /\<close>) and not the render payload; for every request for which
  \<open>getUserId\<close> returns nothing, the loader returns the render payload \<open>json({})\<close> with
  status 200 and no \<open>Location\<close> header, and does not redirect. The empty string, which
  is no user's id, is falsy and is answered like \<open>null\<close>. In both cases the one call
  made is the one of \<open>getUserId\<close>.
\<close>

theorem loader_guard:
  "(getUserId env request = Some uid \<and> uid \<noteq> [] \<longrightarrow>
      loader env request = (redirect (js ''/''), [GetUserId request]) \<and>
      status (fst (loader env request)) = 302 \<and>
      map_of (headers (fst (loader env request))) ''Location'' = Some (js ''/'') \<and>
      fst (loader env request) \<noteq> json (JObject []) 200)
   \<and> (getUserId env request = None \<or> getUserId env request = Some [] \<longrightarrow>
      loader env request = (json (JObject []) 200, [GetUserId request]) \<and>
      status (fst (loader env request)) = 200 \<and>
      map_of (headers (fst (loader env request))) ''Location'' = None \<and>
      fst (loader env request) \<noteq> redirect (js ''/''))"
  by (auto simp: loader_def truthy_def redirect_def json_def)

theorem loader_guard_witness:
  "getUserId sample_env (visit (Some (js ''cl9u1''))) = Some (js ''cl9u1'')
   \<and> loader sample_env (visit (Some (js ''cl9u1''))) =
       (redirect (js ''/''), [GetUserId (visit (Some (js ''cl9u1'')))])
   \<and> getUserId sample_env (visit None) = None
   \<and> loader sample_env (visit None) = (json (JObject []) 200, [GetUserId (visit None)])"
  using
    loader_guard [of sample_env "visit (Some (js ''cl9u1''))" "js ''cl9u1''"]
    loader_guard [of sample_env "visit None"]
  by (simp add: sample_env_def visit_def)

end
